theory Spec2Isabelle
  imports Main "HOL-Library.Sublist"
begin

section \<open>Python strings\<close>

text \<open>
  A Python \<open>str\<close> is a sequence of Unicode code points. A code point is a natural number
  here, so that the non-ASCII characters of the program (the marker in front of the
  syntax note, the Unicode white space that \<open>str.strip\<close> removes) are one element each.
  \<open>u\<close> reads an ASCII literal of the source as such a sequence.
\<close>

type_synonym ustr = "nat list"

definition u :: "string \<Rightarrow> ustr" where
  "u s = map of_char s"

definition bsl :: string where
  \<comment> \<open>the backslash, which a string literal of the logic cannot hold\<close>
  "bsl = [CHR 0x5C]"

definition NL :: nat where
  \<comment> \<open>the line feed, \<open>"\n"\<close>\<close>
  "NL = 10"

definition py_isspace :: "nat \<Rightarrow> bool" where
  \<comment> \<open>the code points that \<open>str.strip()\<close> removes: Python's Unicode white space\<close>
  "py_isspace c \<longleftrightarrow>
     (9 \<le> c \<and> c \<le> 13) \<or> (28 \<le> c \<and> c \<le> 32) \<or> c = 0x85 \<or> c = 0xA0 \<or> c = 0x1680 \<or>
     (0x2000 \<le> c \<and> c \<le> 0x200A) \<or> c = 0x2028 \<or> c = 0x2029 \<or> c = 0x202F \<or>
     c = 0x205F \<or> c = 0x3000"

definition py_strip :: "ustr \<Rightarrow> ustr" where
  "py_strip s = rev (dropWhile py_isspace (rev (dropWhile py_isspace s)))"

definition lower_cp :: "nat \<Rightarrow> nat" where
  \<comment> \<open>\<open>str.lower()\<close> on one code point. ASCII is exact. Beyond ASCII Python follows the
      Unicode tables, which map no code point there to one of the letters of
      \<open>"python"\<close>; the only use of \<open>lower\<close> in the program compares its result with
      that word, and for that comparison leaving those code points alone is exact.\<close>
  "lower_cp c = (if 65 \<le> c \<and> c \<le> 90 then c + 32 else c)"

definition py_lower :: "ustr \<Rightarrow> ustr" where
  "py_lower s = map lower_cp s"

section \<open>Exceptions\<close>

text \<open>
  The exceptions that can leave a function of the program: \<open>re.error\<close>, the
  \<open>IndexError\<close> of \<open>group\<close>, and an exception of \<open>ast.parse\<close> that is not a
  \<open>SyntaxError\<close> (with its message), which nothing in the program catches.
\<close>

datatype py_exc = ReError ustr | IndexError | ParserException ustr

definition py_bind :: "py_exc + 'a \<Rightarrow> ('a \<Rightarrow> py_exc + 'b) \<Rightarrow> py_exc + 'b" where
  \<comment> \<open>sequencing: an exception raised by the first computation leaves the function\<close>
  "py_bind m f = (case m of Inl e \<Rightarrow> Inl e | Inr x \<Rightarrow> f x)"

section \<open>The regular expressions of the program\<close>

text \<open>
  The program hands five patterns to Python's \<open>re\<close>: four constants (the section
  headers) and one built from the language name. The fragment of the pattern syntax that
  they use when the language name holds no special character is modelled in full:
  literal characters, \<open>\n\<close>, an escaped punctuation character, \<open>.\<close>, \<open>^\<close> and the capturing
  group \<open>(.*?)\<close>. \<open>re_parse\<close> returns \<open>None\<close> on every pattern outside this fragment; what
  \<open>re\<close> does with such a pattern (raise \<open>re.error\<close>, or match in some way) is a parameter
  of the embedding, \<open>re_library\<close> below.
\<close>

record re_flags =
  multiline :: bool
  dotall :: bool

definition MULTILINE :: re_flags where
  "MULTILINE = \<lparr>multiline = True, dotall = False\<rparr>"

definition DOTALL :: re_flags where
  "DOTALL = \<lparr>multiline = False, dotall = True\<rparr>"

datatype re_item = Lit nat | AnyChar | Bol | LazyAnyGroup

definition re_special :: "nat \<Rightarrow> bool" where
  \<comment> \<open>the special characters of the pattern syntax\<close>
  "re_special c \<longleftrightarrow> c \<in> set (u (''.^$*+?{}[]|()'' @ bsl))"

definition ascii_alnum :: "nat \<Rightarrow> bool" where
  "ascii_alnum c \<longleftrightarrow> (48 \<le> c \<and> c \<le> 57) \<or> (65 \<le> c \<and> c \<le> 90) \<or> (97 \<le> c \<and> c \<le> 122)"

fun re_parse :: "ustr \<Rightarrow> re_item list option" where
  "re_parse [] = Some []"
| "re_parse (c # cs) =
     (if c = 0x5C then
        (case cs of
           [] \<Rightarrow> None
         | d # ds \<Rightarrow>
             if d = 0x6E then map_option ((#) (Lit NL)) (re_parse ds)
             else if ascii_alnum d then None
             else map_option ((#) (Lit d)) (re_parse ds))
      else if c = 0x2E then map_option ((#) AnyChar) (re_parse cs)
      else if c = 0x5E then map_option ((#) Bol) (re_parse cs)
      else if c = 0x28 \<and> take 4 cs = u ''.*?)'' then
        map_option ((#) LazyAnyGroup) (re_parse (drop 4 cs))
      else if re_special c then None
      else map_option ((#) (Lit c)) (re_parse cs))"

text \<open>
  Matching is the backtracking search of \<open>re\<close>. \<open>rx_match\<close> matches the items at the
  current position; \<open>prev\<close> is the character before it (\<open>None\<close> at the start of the text),
  which \<open>^\<close> looks at. The result is the list of the groups' captures. The lazy group
  first tries to go on with no character taken, then with one more, as \<open>.*?\<close> does.
\<close>

function rx_match :: "re_flags \<Rightarrow> re_item list \<Rightarrow> nat option \<Rightarrow> ustr \<Rightarrow> ustr list option"
  and rx_lazy :: "re_flags \<Rightarrow> re_item list \<Rightarrow> nat option \<Rightarrow> ustr \<Rightarrow> ustr \<Rightarrow> ustr list option"
where
  "rx_match f [] prev s = Some []"
| "rx_match f (Lit c # r) prev [] = None"
| "rx_match f (Lit c # r) prev (x # xs) = (if x = c then rx_match f r (Some x) xs else None)"
| "rx_match f (AnyChar # r) prev [] = None"
| "rx_match f (AnyChar # r) prev (x # xs) =
     (if dotall f \<or> x \<noteq> NL then rx_match f r (Some x) xs else None)"
| "rx_match f (Bol # r) prev s =
     (if prev = None \<or> (multiline f \<and> prev = Some NL) then rx_match f r prev s else None)"
| "rx_match f (LazyAnyGroup # r) prev s = rx_lazy f r prev s []"
| "rx_lazy f r prev s acc =
     (case rx_match f r prev s of
        Some caps \<Rightarrow> Some (rev acc # caps)
      | None \<Rightarrow>
          (case s of
             [] \<Rightarrow> None
           | x # xs \<Rightarrow> if dotall f \<or> x \<noteq> NL then rx_lazy f r (Some x) xs (x # acc) else None))"
  by pat_completeness auto
termination
  by (relation "inv_image (less_than <*lex*> less_than)
        (\<lambda>a. case a of
           Inl (f, r, prev, s) \<Rightarrow> (2 * length r, length s)
         | Inr (f, r, prev, s, acc) \<Rightarrow> (2 * length r + 1, length s))") auto

text \<open>\<open>search\<close> tries every start position from the left, the end of the text included.\<close>

fun rx_search_from :: "re_flags \<Rightarrow> re_item list \<Rightarrow> nat option \<Rightarrow> ustr \<Rightarrow> ustr list option" where
  "rx_search_from f items prev [] = rx_match f items prev []"
| "rx_search_from f items prev (x # xs) =
     (case rx_match f items prev (x # xs) of
        Some caps \<Rightarrow> Some caps
      | None \<Rightarrow> rx_search_from f items (Some x) xs)"

definition rx_search :: "re_flags \<Rightarrow> re_item list \<Rightarrow> ustr \<Rightarrow> ustr list option" where
  "rx_search f items s = rx_search_from f items None s"

section \<open>The environment\<close>

text \<open>
  What the program calls and does not define: the language model behind \<open>llm.invoke\<close>
  (it returns the content of the reply, or raises an exception whose \<open>str\<close> is the
  message), Python's parser behind \<open>ast.parse\<close> (it returns a tree, or raises
  \<open>SyntaxError\<close> whose \<open>str\<close> is the message, or raises another exception: on a source
  text with a lone surrogate it is \<open>UnicodeEncodeError\<close>), and \<open>re\<close> on the patterns
  outside the fragment above (it raises, or returns the groups of the first match, or no
  match).
\<close>

datatype parse_result = Parsed | SyntaxError ustr | OtherException ustr

record env =
  llm_invoke :: "ustr \<Rightarrow> ustr + ustr"
  ast_parse :: "ustr \<Rightarrow> parse_result"
  re_library :: "re_flags \<Rightarrow> ustr \<Rightarrow> ustr \<Rightarrow> py_exc + ustr list option"

definition re_search :: "env \<Rightarrow> re_flags \<Rightarrow> ustr \<Rightarrow> ustr \<Rightarrow> py_exc + ustr list option" where
  \<comment> \<open>\<open>re.search(pattern, text, flags)\<close>, and \<open>re.compile(pattern, flags).search(text)\<close>\<close>
  "re_search e f pattern text =
     (case re_parse pattern of
        Some items \<Rightarrow> Inr (rx_search f items text)
      | None \<Rightarrow> re_library e f pattern text)"

definition group1 :: "ustr list \<Rightarrow> py_exc + ustr" where
  \<comment> \<open>\<open>match.group(1)\<close>\<close>
  "group1 caps = (case caps of [] \<Rightarrow> Inl IndexError | g # _ \<Rightarrow> Inr g)"

section \<open>The program\<close>

record CodeReviewState =
  language :: ustr
  code :: ustr
  review :: ustr
  error :: ustr

definition required_sections :: "ustr list" where
  "required_sections = map u
     [''^'' @ bsl @ ''*'' @ bsl @ ''*Issues:'' @ bsl @ ''*'' @ bsl @ ''*'',
      ''^'' @ bsl @ ''*'' @ bsl @ ''*Corrected Code '' @ bsl @ ''(Preserve Indentation''
        @ bsl @ ''):'' @ bsl @ ''*'' @ bsl @ ''*'',
      ''^'' @ bsl @ ''*'' @ bsl @ ''*Optimized Code:'' @ bsl @ ''*'' @ bsl @ ''*'',
      ''^'' @ bsl @ ''*'' @ bsl @ ''*Explanation:'' @ bsl @ ''*'' @ bsl @ ''*'']"

fun all_sections :: "env \<Rightarrow> ustr \<Rightarrow> ustr list \<Rightarrow> py_exc + bool" where
  \<comment> \<open>\<open>all(re.search(section, response, re.MULTILINE) for section in ...)\<close>: it stops at
      the first pattern that does not match\<close>
  "all_sections e response [] = Inr True"
| "all_sections e response (section # rest) =
     py_bind (re_search e MULTILINE section response)
       (\<lambda>m. if m \<noteq> None then all_sections e response rest else Inr False)"

definition validate_response_format :: "env \<Rightarrow> ustr \<Rightarrow> py_exc + bool" where
  "validate_response_format e response = all_sections e response required_sections"

definition validate_python_syntax :: "env \<Rightarrow> ustr \<Rightarrow> py_exc + ustr" where
  \<comment> \<open>only \<open>SyntaxError\<close> is caught, every other exception of \<open>ast.parse\<close> leaves the
      function; the note starts with the code point U+1F534\<close>
  "validate_python_syntax e src =
     (case ast_parse e src of
        Parsed \<Rightarrow> Inr []
      | SyntaxError msg \<Rightarrow>
          Inr ([0x1F534] @ u '' Syntax Error in Generated Code:'' @ [NL] @ msg)
      | OtherException msg \<Rightarrow> Inl (ParserException msg))"

definition fence_pattern :: "ustr \<Rightarrow> ustr" where
  \<comment> \<open>the raw f-string: the language name goes into the pattern as it is\<close>
  "fence_pattern lang = u ''```'' @ lang @ u (bsl @ ''n(.*?)```'')"

definition stripped_group1 :: "ustr list option \<Rightarrow> py_exc + ustr option" where
  \<comment> \<open>\<open>m.group(1).strip() if m else None\<close>\<close>
  "stripped_group1 m =
     (case m of
        None \<Rightarrow> Inr None
      | Some caps \<Rightarrow> py_bind (group1 caps) (\<lambda>g. Inr (Some (py_strip g))))"

definition extract_code_blocks :: "env \<Rightarrow> ustr \<Rightarrow> ustr \<Rightarrow> py_exc + (ustr option \<times> ustr option)" where
  "extract_code_blocks e response lang =
     py_bind (re_search e DOTALL (fence_pattern lang) response) (\<lambda>corrected_match.
     py_bind (re_search e DOTALL (fence_pattern lang) response) (\<lambda>optimized_match.
     py_bind (stripped_group1 corrected_match) (\<lambda>corrected.
     py_bind (stripped_group1 optimized_match) (\<lambda>optimized.
     Inr (corrected, optimized)))))"

definition prompt_of :: "ustr \<Rightarrow> ustr \<Rightarrow> ustr" where
  "prompt_of lang original_code =
     u ''### Code Review Task for '' @ lang @ [NL] @
     u ''Analyze this code for errors, correct them while preserving indentation, '' @ [NL] @
     u ''then create an optimized version. Follow this format:'' @ [NL] @
     [NL] @
     u ''**Issues:** List problems found'' @ [NL] @
     u ''**Corrected Code (Preserve Indentation):** '' @ lang @ u '' code block with fixes'' @ [NL] @
     u ''**Optimized Code:** '' @ lang @ u '' code block with improvements'' @ [NL] @
     u ''**Explanation:** Benefits of optimizations'' @ [NL] @
     [NL] @
     u ''Original Code:'' @ [NL] @
     u ''```'' @ lang @ [NL] @
     original_code @ [NL] @
     u ''```''"

text \<open>
  \<open>review_code\<close> calls \<open>validate_python_syntax\<close> outside any \<open>try\<close>, so an exception
  that leaves the one leaves the other. It returns a dictionary. On its two error paths the dictionary holds the
  key \<open>"error"\<close> only, so the result is a map from keys to strings and not a record.
\<close>

type_synonym result = "string \<rightharpoonup> ustr"

definition review_code :: "env \<Rightarrow> CodeReviewState \<Rightarrow> py_exc + result" where
  "review_code e state =
     (let lang = language state;
          original_code = py_strip (code state);
          prompt = prompt_of lang original_code
      in case llm_invoke e prompt of
           Inl msg \<Rightarrow> Inr [''error'' \<mapsto> u ''API Error: '' @ msg]
         | Inr response \<Rightarrow>
             py_bind (validate_response_format e response) (\<lambda>valid.
               if \<not> valid then Inr [''error'' \<mapsto> u ''Invalid response format from AI model'']
               else
                 py_bind
                   (if py_lower lang = u ''python'' then
                      py_bind (extract_code_blocks e response lang) (\<lambda>(corrected_code, _).
                        case corrected_code of
                          None \<Rightarrow> Inr []
                        | Some c \<Rightarrow> if c \<noteq> [] then validate_python_syntax e c else Inr [])
                    else Inr [])
                   (\<lambda>validation_msg.
                      let response' =
                            (if validation_msg \<noteq> [] then response @ [NL, NL] @ validation_msg
                             else response)
                      in Inr [''language'' \<mapsto> lang, ''code'' \<mapsto> original_code,
                              ''review'' \<mapsto> response', ''error'' \<mapsto> []])))"

section \<open>The words of the specification\<close>

text \<open>
  The lines of a text are what stands between its line feeds; a header occurs at the
  start of a line when it is a prefix of one of them.
\<close>

fun lines_of :: "ustr \<Rightarrow> ustr list" where
  "lines_of [] = [[]]"
| "lines_of (c # cs) =
     (if c = NL then [] # lines_of cs
      else (case lines_of cs of [] \<Rightarrow> [[c]] | l # ls \<Rightarrow> (c # l) # ls))"

definition at_line_start :: "ustr \<Rightarrow> ustr \<Rightarrow> bool" where
  "at_line_start h text \<longleftrightarrow> list_ex (prefix h) (lines_of text)"

definition headers :: "ustr list" where
  "headers = map u
     [''**Issues:**'', ''**Corrected Code (Preserve Indentation):**'',
      ''**Optimized Code:**'', ''**Explanation:**'']"

definition has_all_headers :: "ustr \<Rightarrow> bool" where
  "has_all_headers text \<longleftrightarrow> list_all (\<lambda>h. at_line_start h text) headers"

text \<open>
  A fenced block tagged with a language starts with three backquotes, the language name
  and a line feed, and ends before the next three backquotes. \<open>split_first p s\<close> cuts
  \<open>s\<close> at the first occurrence of \<open>p\<close>.
\<close>

fun split_first :: "ustr \<Rightarrow> ustr \<Rightarrow> (ustr \<times> ustr) option" where
  "split_first p [] = (if p = [] then Some ([], []) else None)"
| "split_first p (x # xs) =
     (if prefix p (x # xs) then Some ([], drop (length p) (x # xs))
      else map_option (\<lambda>(a, b). (x # a, b)) (split_first p xs))"

definition first_tagged_block :: "ustr \<Rightarrow> ustr \<Rightarrow> ustr option" where
  "first_tagged_block lang text =
     (case split_first (u ''```'' @ lang @ [NL]) text of
        None \<Rightarrow> None
      | Some (_, rest) \<Rightarrow> map_option fst (split_first (u ''```'') rest))"

definition plain_name :: "ustr \<Rightarrow> bool" where
  \<comment> \<open>a language name that holds no special character of the pattern syntax\<close>
  "plain_name s \<longleftrightarrow> list_all (\<lambda>c. \<not> re_special c) s"

text \<open>
  A field of the result is non-empty when the dictionary holds the key with a string that
  is not the empty one; it is empty otherwise.
\<close>

definition field_nonempty :: "result \<Rightarrow> string \<Rightarrow> bool" where
  "field_nonempty d k \<longleftrightarrow> (case d k of None \<Rightarrow> False | Some v \<Rightarrow> v \<noteq> [])"

definition field_empty :: "result \<Rightarrow> string \<Rightarrow> bool" where
  "field_empty d k \<longleftrightarrow> \<not> field_nonempty d k"

definition syntax_note :: "env \<Rightarrow> ustr \<Rightarrow> ustr \<Rightarrow> py_exc + ustr" where
  \<comment> \<open>the value that \<open>review_code\<close> gives to \<open>validation_msg\<close> on a reply in the right format\<close>
  "syntax_note e response lang =
     (if py_lower lang = u ''python'' then
        py_bind (extract_code_blocks e response lang) (\<lambda>(corrected_code, _).
          case corrected_code of
            None \<Rightarrow> Inr []
          | Some c \<Rightarrow> if c \<noteq> [] then validate_python_syntax e c else Inr [])
      else Inr [])"

definition unexpected_parser_exception :: "env \<Rightarrow> ustr \<Rightarrow> ustr \<Rightarrow> bool" where
  \<comment> \<open>\<open>review_code\<close> hands code extracted from the reply to the parser, and the parser
      raises an exception that is not a \<open>SyntaxError\<close>\<close>
  "unexpected_parser_exception e response lang \<longleftrightarrow>
     py_lower lang = u ''python'' \<and>
     (case extract_code_blocks e response lang of
        Inl x \<Rightarrow> False
      | Inr (corrected_code, optimized) \<Rightarrow>
          (case corrected_code of
             None \<Rightarrow> False
           | Some c \<Rightarrow>
               c \<noteq> [] \<and> (case ast_parse e c of OtherException m \<Rightarrow> True | _ \<Rightarrow> False)))"

definition syntax_error_note :: "ustr \<Rightarrow> ustr" where
  \<comment> \<open>the syntax note for the message of a \<open>SyntaxError\<close>\<close>
  "syntax_error_note msg = [0x1F534] @ u '' Syntax Error in Generated Code:'' @ [NL] @ msg"

definition success_result :: "CodeReviewState \<Rightarrow> ustr \<Rightarrow> result" where
  \<comment> \<open>the dictionary of a successful review with the given review text\<close>
  "success_result state text =
     [''language'' \<mapsto> language state, ''code'' \<mapsto> py_strip (code state),
      ''review'' \<mapsto> text, ''error'' \<mapsto> []]"

definition prompt_for :: "CodeReviewState \<Rightarrow> ustr" where
  \<comment> \<open>the prompt that \<open>review_code\<close> sends for a state\<close>
  "prompt_for state = prompt_of (language state) (py_strip (code state))"

section \<open>Sample runs\<close>

text \<open>
  A mocked model call that gives a fixed reply or failure, a parser that finds a syntax
  error in one source text and cannot encode a source text with a surrogate, the state
  that the button handler builds, and replies in the format that the prompt asks for.
\<close>

definition mock_env :: "ustr + ustr \<Rightarrow> (ustr \<Rightarrow> parse_result) \<Rightarrow> env" where
  "mock_env reply parser =
     \<lparr>llm_invoke = (\<lambda>prompt. reply), ast_parse = parser,
      re_library = (\<lambda>f pattern text. Inl (ReError (u ''multiple repeat'')))\<rparr>"

definition bad_block :: ustr where
  "bad_block = u ''def f(: return 1''"

definition surrogate_block :: ustr where
  \<comment> \<open>an assignment of a string literal that holds the lone surrogate U+D800\<close>
  "surrogate_block = u ''x = '' @ [0x27, 0xD800, 0x27]"

definition has_surrogate :: "ustr \<Rightarrow> bool" where
  "has_surrogate src \<longleftrightarrow> list_ex (\<lambda>c. 0xD800 \<le> c \<and> c \<le> 0xDFFF) src"

definition sample_parser :: "ustr \<Rightarrow> parse_result" where
  "sample_parser src =
     (if has_surrogate src then OtherException (u ''surrogates not allowed'')
      else if src = bad_block then SyntaxError (u ''invalid syntax (<unknown>, line 1)'')
      else Parsed)"

definition ui_state :: "ustr \<Rightarrow> ustr \<Rightarrow> CodeReviewState" where
  "ui_state lang code_input = \<lparr>language = lang, code = code_input, review = [], error = []\<rparr>"

definition sample_response :: "ustr \<Rightarrow> ustr \<Rightarrow> ustr" where
  "sample_response tag block =
     u ''**Issues:** one'' @ [NL] @
     u ''**Corrected Code (Preserve Indentation):**'' @ [NL] @
     u ''```'' @ tag @ [NL] @ block @ [NL] @ u ''```'' @ [NL] @
     u ''**Optimized Code:**'' @ [NL] @
     u ''```'' @ tag @ [NL] @ u ''pass'' @ [NL] @ u ''```'' @ [NL] @
     u ''**Explanation:** shorter''"

definition python_review :: ustr where
  "python_review = sample_response (u ''Python'') bad_block"

definition surrogate_review :: ustr where
  "surrogate_review = sample_response (u ''Python'') surrogate_block"

definition lowercase_review :: ustr where
  "lowercase_review = sample_response (u ''python'') surrogate_block"

definition no_explanation :: ustr where
  "no_explanation =
     u ''**Issues:** one'' @ [NL] @
     u ''**Corrected Code (Preserve Indentation):**'' @ [NL] @
     u ''**Optimized Code:**'' @ [NL] @
     u ''It is shorter.''"

definition reversed_review :: ustr where
  "reversed_review =
     u ''**Explanation:** shorter'' @ [NL] @
     u ''**Optimized Code:**'' @ [NL] @
     u ''**Corrected Code (Preserve Indentation):**'' @ [NL] @
     u ''**Issues:** one''"

definition untagged_text :: ustr where
  "untagged_text = u ''```x'' @ [NL] @ u ''foo```''"

section \<open>The header patterns\<close>

lemma required_sections_items:
  "map re_parse required_sections = map (\<lambda>h. Some (Bol # map Lit h)) headers"
  by (simp add: required_sections_def headers_def u_def bsl_def NL_def re_special_def
      ascii_alnum_def)

lemma headers_no_NL: "\<forall>h \<in> set headers. NL \<notin> set h"
  by (simp add: headers_def u_def NL_def)

lemma rx_match_lits:
  "rx_match f (map Lit p @ r) prev s =
     (if prefix p s then rx_match f r (if p = [] then prev else Some (last p)) (drop (length p) s)
      else None)"
proof (induction p arbitrary: prev s)
  case Nil
  then show ?case by simp
next
  case (Cons c p)
  show ?case
  proof (cases s)
    case Nil
    then show ?thesis by simp
  next
    case (Cons x xs)
    then show ?thesis using Cons.IH [of "Some x" xs] by auto
  qed
qed

lemma rx_match_header:
  "rx_match MULTILINE (Bol # map Lit h) prev s =
     (if (prev = None \<or> prev = Some NL) \<and> prefix h s then Some [] else None)"
  using rx_match_lits [of MULTILINE h "[]" prev s] by (simp add: MULTILINE_def)

lemma lines_of_nonempty: "lines_of s \<noteq> []"
  by (induction s) (auto split: list.splits)

lemma hd_lines_of: "hd (lines_of (c # cs)) = (if c = NL then [] else c # hd (lines_of cs))"
  using lines_of_nonempty [of cs] by (auto split: list.splits)

lemma tl_lines_of: "tl (lines_of (c # cs)) = (if c = NL then lines_of cs else tl (lines_of cs))"
  using lines_of_nonempty [of cs] by (auto split: list.splits)

lemma prefix_first_line: "NL \<notin> set h \<Longrightarrow> prefix h (hd (lines_of s)) \<longleftrightarrow> prefix h s"
proof (induction s arbitrary: h)
  case Nil
  then show ?case by simp
next
  case (Cons c cs)
  show ?case
  proof (cases h)
    case Nil
    then show ?thesis by simp
  next
    case (Cons a h')
    with Cons.prems have "a \<noteq> NL" "NL \<notin> set h'" by auto
    then show ?thesis
      using Cons.IH [of h'] Cons by (auto simp: hd_lines_of simp del: lines_of.simps)
  qed
qed

lemma ex_line_split:
  "(\<exists>l \<in> set (lines_of s). P l) \<longleftrightarrow> P (hd (lines_of s)) \<or> (\<exists>l \<in> set (tl (lines_of s)). P l)"
  using lines_of_nonempty [of s] by (cases "lines_of s") auto

lemma rx_search_from_header:
  assumes "NL \<notin> set h"
  shows "rx_search_from MULTILINE (Bol # map Lit h) prev s \<noteq> None \<longleftrightarrow>
     ((prev = None \<or> prev = Some NL) \<and> prefix h s) \<or> (\<exists>l \<in> set (tl (lines_of s)). prefix h l)"
proof (induction s arbitrary: prev)
  case Nil
  then show ?case by (simp add: rx_match_header del: rx_match.simps)
next
  case (Cons x xs)
  have first: "prefix h (hd (lines_of xs)) \<longleftrightarrow> prefix h xs"
    using assms by (rule prefix_first_line)
  show ?case
    using Cons.IH [of "Some x"] ex_line_split [of xs "prefix h"] first
    by (auto simp: rx_match_header tl_lines_of simp del: lines_of.simps rx_match.simps)
qed

lemma rx_search_header:
  assumes "NL \<notin> set h"
  shows "rx_search MULTILINE (Bol # map Lit h) s \<noteq> None \<longleftrightarrow> at_line_start h s"
  using rx_search_from_header [OF assms, of None s] ex_line_split [of s "prefix h"]
    prefix_first_line [OF assms, of s]
  by (simp add: rx_search_def at_line_start_def list_ex_iff)

lemma all_sections_headers:
  "map re_parse ps = map (\<lambda>h. Some (Bol # map Lit h)) hs \<Longrightarrow> \<forall>h \<in> set hs. NL \<notin> set h \<Longrightarrow>
   all_sections e r ps = Inr (list_all (\<lambda>h. at_line_start h r) hs)"
proof (induction ps arbitrary: hs)
  case Nil
  then show ?case by simp
next
  case (Cons p ps)
  then obtain h hs' where hs: "hs = h # hs'" by (cases hs) auto
  with Cons.prems have p: "re_parse p = Some (Bol # map Lit h)" and h: "NL \<notin> set h" by auto
  have rest: "all_sections e r ps = Inr (list_all (\<lambda>h. at_line_start h r) hs')"
    using Cons.prems hs by (intro Cons.IH) auto
  show ?case
    using rx_search_header [OF h, of r] rest
    by (auto simp add: hs p re_search_def py_bind_def)
qed

lemma validate_has_all_headers: "validate_response_format e r = Inr (has_all_headers r)"
  unfolding validate_response_format_def has_all_headers_def
  by (rule all_sections_headers [OF required_sections_items headers_no_NL])

lemma has_all_headers_nonempty: "has_all_headers r \<Longrightarrow> r \<noteq> []"
  by (auto simp: has_all_headers_def headers_def at_line_start_def u_def)

section \<open>The fence pattern\<close>

lemma re_parse_plain:
  "plain_name p \<Longrightarrow> re_parse (p @ rest) = map_option ((@) (map Lit p)) (re_parse rest)"
proof (induction p)
  case Nil
  then show ?case by (simp add: option.map_ident)
next
  case (Cons c p)
  then have c: "\<not> re_special c" and p: "plain_name p" by (simp_all add: plain_name_def)
  from c have "c \<noteq> 0x5C" "c \<noteq> 0x2E" "c \<noteq> 0x5E" "c \<noteq> 0x28"
    by (auto simp: re_special_def u_def bsl_def)
  then show ?case using c Cons.IH [OF p] by (simp add: option.map_comp comp_def)
qed

lemma fence_items:
  assumes l: "plain_name lang"
  shows "re_parse (fence_pattern lang) =
     Some (map Lit (u ''```'' @ lang @ [NL]) @ LazyAnyGroup # map Lit (u ''```''))"
proof -
  have t: "plain_name (u ''```'')"
    by (simp add: plain_name_def u_def re_special_def bsl_def)
  have tail: "re_parse (u (bsl @ ''n(.*?)```'')) = Some (Lit NL # LazyAnyGroup # map Lit (u ''```''))"
    by (simp add: u_def bsl_def NL_def re_special_def ascii_alnum_def)
  show ?thesis
    unfolding fence_pattern_def
    by (simp add: re_parse_plain [OF t] re_parse_plain [OF l] tail)
qed

lemma split_first_Some:
  "split_first p s = Some (a, b) \<Longrightarrow> s = a @ p @ b"
proof (induction s arbitrary: a)
  case Nil
  then show ?case by (auto split: if_splits)
next
  case (Cons x xs)
  show ?case
  proof (cases "prefix p (x # xs)")
    case True
    with Cons.prems show ?thesis by (auto simp: prefix_def)
  next
    case False
    with Cons.prems obtain a' where "split_first p xs = Some (a', b)" "a = x # a'" by auto
    then show ?thesis using Cons.IH by simp
  qed
qed

lemma split_first_None_iff: "split_first p s = None \<longleftrightarrow> (\<forall>a b. s \<noteq> a @ p @ b)"
proof (induction s)
  case Nil
  then show ?case by auto
next
  case (Cons x xs)
  show ?case
  proof (cases "prefix p (x # xs)")
    case True
    then show ?thesis by (auto simp: prefix_def) (metis append_Nil)
  next
    case False
    have "(\<exists>a b. x # xs = a @ p @ b) \<longleftrightarrow> (\<exists>a b. xs = a @ p @ b)"
    proof
      assume "\<exists>a b. x # xs = a @ p @ b"
      then obtain a b where ab: "x # xs = a @ p @ b" by blast
      with False have "a \<noteq> []" by (auto simp: prefix_def)
      then obtain a' where "a = x # a'" using ab by (cases a) auto
      with ab show "\<exists>a b. xs = a @ p @ b" by auto
    next
      assume "\<exists>a b. xs = a @ p @ b"
      then obtain a b where "xs = a @ p @ b" by blast
      then have "x # xs = (x # a) @ p @ b" by simp
      then show "\<exists>a b. x # xs = a @ p @ b" by blast
    qed
    with False Cons.IH show ?thesis by auto
  qed
qed

lemma split_first_None_suffix:
  assumes n: "split_first q t = None"
  shows "split_first q (drop n t) = None"
proof (rule ccontr)
  assume "split_first q (drop n t) \<noteq> None"
  then obtain a b where "drop n t = a @ q @ b" by (auto simp: split_first_None_iff)
  then have "t = (take n t @ a) @ q @ b" by (metis append_assoc append_take_drop_id)
  with n show False unfolding split_first_None_iff by blast
qed

lemma rx_lazy_lits:
  "dotall f \<Longrightarrow>
   rx_lazy f (map Lit q) prev s acc = map_option (\<lambda>ab. [rev acc @ fst ab]) (split_first q s)"
proof (induction s arbitrary: prev acc)
  case Nil
  then show ?case using rx_match_lits [of f q "[]" prev "[]"] by simp
next
  case (Cons x xs)
  have m: "rx_match f (map Lit q) prev (x # xs) = (if prefix q (x # xs) then Some [] else None)"
    using rx_match_lits [of f q "[]" prev "x # xs"] by simp
  show ?case
    using Cons.prems Cons.IH [OF Cons.prems, of "Some x" "x # acc"]
    by (simp add: m option.map_comp comp_def case_prod_beta)
qed

lemma rx_match_fence:
  "dotall f \<Longrightarrow>
   rx_match f (map Lit p @ LazyAnyGroup # map Lit q) prev s =
     (if prefix p s then map_option (\<lambda>ab. [fst ab]) (split_first q (drop (length p) s))
      else None)"
  by (simp add: rx_match_lits rx_lazy_lits del: rx_lazy.simps)

lemma rx_search_from_fence:
  assumes f: "dotall f" and p: "p \<noteq> []"
  shows "rx_search_from f (map Lit p @ LazyAnyGroup # map Lit q) prev s =
     (case split_first p s of
        None \<Rightarrow> None
      | Some (_, rest) \<Rightarrow> map_option (\<lambda>ab. [fst ab]) (split_first q rest))"
proof (induction s arbitrary: prev)
  case Nil
  then show ?case using p by (simp add: rx_match_fence [OF f])
next
  case (Cons x xs)
  show ?case
  proof (cases "prefix p (x # xs)")
    case False
    then show ?thesis
      using Cons.IH [of "Some x"]
      by (simp add: rx_match_fence [OF f] split: option.splits)
  next
    case True
    show ?thesis
    proof (cases "split_first q (drop (length p) (x # xs))")
      case (Some ab)
      with True show ?thesis by (simp add: rx_match_fence [OF f])
    next
      case None
      have later: "(case split_first p xs of None \<Rightarrow> None
          | Some (_, rest) \<Rightarrow> map_option (\<lambda>ab. [fst ab]) (split_first q rest)) = None"
      proof (cases "split_first p xs")
        case None
        then show ?thesis by simp
      next
        case (Some ar)
        obtain a rest where ar: "ar = (a, rest)" by (cases ar)
        from Some ar have xs: "xs = a @ p @ rest" by (simp add: split_first_Some)
        have "drop (length a + 1) (drop (length p) (x # xs)) = drop (length a + length p) xs"
          using p by (cases p) (simp_all add: add.commute)
        also have "\<dots> = rest" using xs by simp
        finally have "split_first q rest = None"
          using split_first_None_suffix [OF None, of "length a + 1"] by simp
        with Some ar show ?thesis by simp
      qed
      from True None show ?thesis
        using Cons.IH [of "Some x"] later by (simp add: rx_match_fence [OF f])
    qed
  qed
qed

lemma rx_search_fence:
  "rx_search DOTALL (map Lit (u ''```'' @ lang @ [NL]) @ LazyAnyGroup # map Lit (u ''```'')) text =
     map_option (\<lambda>b. [b]) (first_tagged_block lang text)"
proof -
  have d: "dotall DOTALL" by (simp add: DOTALL_def)
  have p: "u ''```'' @ lang @ [NL] \<noteq> []" by (simp add: u_def)
  show ?thesis
    unfolding rx_search_def first_tagged_block_def rx_search_from_fence [OF d p]
    by (auto split: option.splits simp: option.map_comp comp_def)
qed

lemma extract_plain:
  assumes l: "plain_name lang"
  shows "extract_code_blocks e response lang =
     Inr (map_option py_strip (first_tagged_block lang response),
          map_option py_strip (first_tagged_block lang response))"
proof -
  have s: "re_search e DOTALL (fence_pattern lang) response =
      Inr (map_option (\<lambda>b. [b]) (first_tagged_block lang response))"
    by (simp add: re_search_def fence_items [OF l] rx_search_fence del: map_append)
  show ?thesis
    by (cases "first_tagged_block lang response")
      (simp_all add: extract_code_blocks_def s py_bind_def stripped_group1_def group1_def)
qed

lemma extract_equal:
  "extract_code_blocks e response lang = Inr (a, b) \<Longrightarrow> a = b"
  by (auto simp: extract_code_blocks_def py_bind_def split: sum.splits)

lemma python_plain:
  assumes l: "py_lower lang = u ''python''"
  shows "plain_name lang"
proof -
  have "lower_cp ` set lang = set (u ''python'')"
    using l by (metis py_lower_def set_map)
  then have "\<forall>c \<in> set lang. lower_cp c \<in> set (u ''python'')"
    by blast
  moreover have "\<not> re_special c" if "lower_cp c \<in> set (u ''python'')" for c
    using that by (auto simp: lower_cp_def u_def re_special_def bsl_def split: if_splits)
  ultimately show ?thesis by (auto simp: plain_name_def list_all_iff)
qed

section \<open>The paths of \<open>review_code\<close>\<close>

lemma review_code_on_failure:
  "llm_invoke e (prompt_for st) = Inl msg \<Longrightarrow>
   review_code e st = Inr [''error'' \<mapsto> u ''API Error: '' @ msg]"
  by (simp add: review_code_def prompt_for_def Let_def)

lemma review_code_on_invalid:
  "llm_invoke e (prompt_for st) = Inr r \<Longrightarrow> \<not> has_all_headers r \<Longrightarrow>
   review_code e st = Inr [''error'' \<mapsto> u ''Invalid response format from AI model'']"
  by (simp add: review_code_def prompt_for_def Let_def validate_has_all_headers py_bind_def)

lemma review_code_on_format:
  assumes "llm_invoke e (prompt_for st) = Inr r" and "has_all_headers r"
  shows "review_code e st =
      py_bind (syntax_note e r (language st)) (\<lambda>validation_msg.
        Inr (success_result st
          (if validation_msg \<noteq> [] then r @ [NL, NL] @ validation_msg else r)))"
  using assms
  by (simp add: review_code_def prompt_for_def Let_def validate_has_all_headers py_bind_def
      success_result_def syntax_note_def)

lemma review_code_on_valid:
  assumes "llm_invoke e (prompt_for st) = Inr r" and "has_all_headers r"
    and "syntax_note e r (language st) = Inr v"
  shows "review_code e st = Inr (success_result st (if v \<noteq> [] then r @ [NL, NL] @ v else r))"
  by (simp add: review_code_on_format [OF assms(1,2)] assms(3) py_bind_def)

lemma review_code_on_exception:
  assumes "llm_invoke e (prompt_for st) = Inr r" and "has_all_headers r"
    and "syntax_note e r (language st) = Inl x"
  shows "review_code e st = Inl x"
  by (simp add: review_code_on_format [OF assms(1,2)] assms(3) py_bind_def)

lemma syntax_note_other:
  "py_lower lang \<noteq> u ''python'' \<Longrightarrow> syntax_note e r lang = Inr []"
  by (simp add: syntax_note_def)

lemma syntax_note_python:
  "py_lower lang = u ''python'' \<Longrightarrow>
   syntax_note e r lang =
     (case map_option py_strip (first_tagged_block lang r) of
        None \<Rightarrow> Inr []
      | Some c \<Rightarrow> if c \<noteq> [] then validate_python_syntax e c else Inr [])"
  by (simp add: syntax_note_def extract_plain [OF python_plain] py_bind_def split: option.splits)

lemma unexpected_python:
  "py_lower lang = u ''python'' \<Longrightarrow>
   unexpected_parser_exception e r lang \<longleftrightarrow>
     (case map_option py_strip (first_tagged_block lang r) of
        None \<Rightarrow> False
      | Some c \<Rightarrow> c \<noteq> [] \<and> (case ast_parse e c of OtherException m \<Rightarrow> True | _ \<Rightarrow> False))"
  by (simp add: unexpected_parser_exception_def extract_plain [OF python_plain]
      split: option.splits)

lemma syntax_note_cases:
  assumes "\<not> unexpected_parser_exception e r lang"
  shows "syntax_note e r lang = Inr [] \<or>
    (\<exists>msg. syntax_note e r lang = Inr (syntax_error_note msg))"
proof (cases "py_lower lang = u ''python''")
  case False
  then show ?thesis by (simp add: syntax_note_other)
next
  case True
  show ?thesis
    using assms
    unfolding syntax_note_python [OF True] unexpected_python [OF True]
    by (auto simp: validate_python_syntax_def syntax_error_note_def
        split: option.splits parse_result.splits)
qed

lemma syntax_note_unexpected:
  assumes "unexpected_parser_exception e r lang"
  shows "\<exists>m. syntax_note e r lang = Inl (ParserException m)"
proof -
  from assms have p: "py_lower lang = u ''python''"
    by (simp add: unexpected_parser_exception_def)
  show ?thesis
    using assms
    unfolding syntax_note_python [OF p] unexpected_python [OF p]
    by (auto simp: validate_python_syntax_def split: option.splits parse_result.splits)
qed

lemma syntax_error_note_nonempty: "syntax_error_note msg \<noteq> []"
  by (simp add: syntax_error_note_def)

lemma review_code_valid_cases:
  assumes "llm_invoke e (prompt_for st) = Inr r" and "has_all_headers r"
    and "\<not> unexpected_parser_exception e r (language st)"
  shows "review_code e st = Inr (success_result st r) \<or>
         (\<exists>msg. review_code e st = Inr (success_result st (r @ [NL, NL] @ syntax_error_note msg)))"
  using syntax_note_cases [OF assms(3)]
    review_code_on_valid [OF assms(1,2)] syntax_error_note_nonempty
  by auto

lemma review_code_raises:
  assumes "llm_invoke e (prompt_for st) = Inr r" and "has_all_headers r"
    and "unexpected_parser_exception e r (language st)"
  shows "\<exists>m. review_code e st = Inl (ParserException m)"
  using syntax_note_unexpected [OF assms(3)] review_code_on_exception [OF assms(1,2)]
  by auto

lemma review_code_same:
  assumes l: "llm_invoke e1 (prompt_for st) = llm_invoke e2 (prompt_for st)"
    and a: "ast_parse e1 = ast_parse e2"
  shows "review_code e1 st = review_code e2 st"
proof (cases "llm_invoke e1 (prompt_for st)")
  case (Inl msg)
  then show ?thesis
    using l by (simp add: review_code_on_failure)
next
  case (Inr response)
  then have r2: "llm_invoke e2 (prompt_for st) = Inr response" using l by simp
  have n: "syntax_note e1 response (language st) = syntax_note e2 response (language st)"
  proof (cases "py_lower (language st) = u ''python''")
    case True
    have vp: "validate_python_syntax e1 = validate_python_syntax e2"
      by (simp add: fun_eq_iff validate_python_syntax_def a)
    show ?thesis
      unfolding syntax_note_python [OF True] vp ..
  next
    case False
    then show ?thesis by (simp add: syntax_note_other)
  qed
  show ?thesis
  proof (cases "has_all_headers response")
    case False
    show ?thesis
      using review_code_on_invalid [OF Inr False] review_code_on_invalid [OF r2 False]
      by simp
  next
    case True
    show ?thesis
      unfolding review_code_on_format [OF Inr True] review_code_on_format [OF r2 True] n ..
  qed
qed

section \<open>Language names outside the fragment\<close>

text \<open>
  Of the names in the selection list of the page, \<open>C++\<close> is the one with special
  characters. Its pattern is outside the fragment: \<open>extract_code_blocks\<close> then does what
  \<open>re\<close> does with the pattern, and raises when \<open>re\<close> rejects it. (Python before 3.11
  rejects a repeated \<open>+\<close>; from 3.11 on \<open>++\<close> is a possessive quantifier.) The result of
  \<open>review_code\<close> does not depend on that part of \<open>re\<close> at all.
\<close>

lemma fence_pattern_cpp: "re_parse (fence_pattern (u ''C++'')) = None"
  by (simp add: fence_pattern_def u_def bsl_def re_special_def)

lemma extract_code_blocks_rejected:
  "re_parse (fence_pattern lang) = None \<Longrightarrow>
   re_library e DOTALL (fence_pattern lang) response = Inl x \<Longrightarrow>
   extract_code_blocks e response lang = Inl x"
  by (simp add: extract_code_blocks_def re_search_def py_bind_def)

lemma extract_code_blocks_no_match:
  "re_parse (fence_pattern lang) = None \<Longrightarrow>
   re_library e DOTALL (fence_pattern lang) response = Inr None \<Longrightarrow>
   extract_code_blocks e response lang = Inr (None, None)"
  by (simp add: extract_code_blocks_def re_search_def py_bind_def stripped_group1_def)

lemma review_code_ignores_re_library:
  "review_code (e\<lparr>re_library := l\<rparr>) st = review_code e st"
  by (rule review_code_same) simp_all

section \<open>The sample runs, evaluated\<close>

lemma mock_llm_invoke: "llm_invoke (mock_env reply parser) prompt = reply"
  by (simp add: mock_env_def)

lemma mock_ast_parse: "ast_parse (mock_env reply parser) = parser"
  by (simp add: mock_env_def)

lemma python_review_headers: "has_all_headers python_review"
  by (simp add: python_review_def sample_response_def bad_block_def has_all_headers_def
      headers_def at_line_start_def u_def NL_def)

lemma no_explanation_headers: "\<not> has_all_headers no_explanation"
  by (simp add: no_explanation_def has_all_headers_def headers_def at_line_start_def u_def
      NL_def)

lemma Python_is_python: "py_lower (u ''Python'') = u ''python''"
  by (simp add: py_lower_def lower_cp_def u_def)

lemma JavaScript_is_not_python: "py_lower (u ''JavaScript'') \<noteq> u ''python''"
  by (simp add: py_lower_def lower_cp_def u_def)

lemma python_review_block: "first_tagged_block (u ''Python'') python_review = Some (bad_block @ [NL])"
  by (simp add: python_review_def sample_response_def bad_block_def first_tagged_block_def
      u_def NL_def)

lemma strip_bad_block: "py_strip (bad_block @ [NL]) = bad_block"
  by (simp add: bad_block_def py_strip_def py_isspace_def u_def NL_def)

lemma parse_bad_block:
  "sample_parser bad_block = SyntaxError (u ''invalid syntax (<unknown>, line 1)'')"
  by (simp add: sample_parser_def has_surrogate_def bad_block_def u_def)

lemma python_review_expected:
  "\<not> unexpected_parser_exception (mock_env reply sample_parser) python_review (u ''Python'')"
  by (simp add: unexpected_python [OF Python_is_python] python_review_block strip_bad_block
      mock_ast_parse parse_bad_block)

lemma surrogate_review_headers: "has_all_headers surrogate_review"
  by (simp add: surrogate_review_def sample_response_def surrogate_block_def
      has_all_headers_def headers_def at_line_start_def u_def NL_def)

lemma surrogate_review_block:
  "first_tagged_block (u ''Python'') surrogate_review = Some (surrogate_block @ [NL])"
  by (simp add: surrogate_review_def sample_response_def surrogate_block_def
      first_tagged_block_def u_def NL_def)

lemma lowercase_review_headers: "has_all_headers lowercase_review"
  by (simp add: lowercase_review_def sample_response_def surrogate_block_def
      has_all_headers_def headers_def at_line_start_def u_def NL_def)

lemma lowercase_review_block:
  "first_tagged_block (u ''python'') lowercase_review = Some (surrogate_block @ [NL])"
  by (simp add: lowercase_review_def sample_response_def surrogate_block_def
      first_tagged_block_def u_def NL_def)

lemma strip_surrogate_block: "py_strip (surrogate_block @ [NL]) = surrogate_block"
  by (simp add: surrogate_block_def py_strip_def py_isspace_def u_def NL_def)

lemma parse_surrogate_block:
  "sample_parser surrogate_block = OtherException (u ''surrogates not allowed'')"
  by (simp add: sample_parser_def has_surrogate_def surrogate_block_def u_def)

lemma surrogate_block_nonempty: "surrogate_block \<noteq> []"
  by (simp add: surrogate_block_def u_def)

lemma python_is_python: "py_lower (u ''python'') = u ''python''"
  by (simp add: py_lower_def lower_cp_def u_def)

section \<open>The claims\<close>

text \<open>
  C1, as the claim has it: on every reply that holds all four section headers,
  \<open>review_code\<close> returns a result. The reply below holds them, and its Python block holds
  a lone surrogate: the parser raises an exception that is not a \<open>SyntaxError\<close>, nothing
  catches it, and \<open>review_code\<close> returns no result.
\<close>

theorem review_code_valid_response_raises:
  "has_all_headers surrogate_review \<and>
   review_code (mock_env (Inr surrogate_review) sample_parser)
     (ui_state (u ''Python'') bad_block) =
     Inl (ParserException (u ''surrogates not allowed''))"
proof -
  have "syntax_note (mock_env (Inr surrogate_review) sample_parser) surrogate_review
      (language (ui_state (u ''Python'') bad_block)) =
      Inl (ParserException (u ''surrogates not allowed''))"
    by (simp add: ui_state_def syntax_note_python [OF Python_is_python] surrogate_review_block
        strip_surrogate_block validate_python_syntax_def mock_ast_parse parse_surrogate_block
        surrogate_block_nonempty)
  then show ?thesis
    using surrogate_review_headers
    by (simp add: review_code_on_exception mock_llm_invoke)
qed

text \<open>
  C1, amended. When the model's reply holds all four section headers, and the parser
  raises no exception other than \<open>SyntaxError\<close> on the code extracted from it,
  \<open>review_code\<close> returns a result whose error is the empty string and whose review is the
  whole reply, or the whole reply followed by a blank line and a syntax note.
\<close>

theorem review_code_valid_response:
  assumes "llm_invoke e (prompt_for st) = Inr response" and "has_all_headers response"
    and "\<not> unexpected_parser_exception e response (language st)"
  shows "\<exists>d. review_code e st = Inr d \<and> d ''error'' = Some [] \<and>
           (d ''review'' = Some response \<or>
            (\<exists>msg. d ''review'' = Some (response @ [NL, NL] @ syntax_error_note msg)))"
  using review_code_valid_cases [OF assms] by (auto simp: success_result_def)

theorem review_code_valid_response_witness:
  "has_all_headers python_review \<and>
   \<not> unexpected_parser_exception (mock_env (Inr python_review) sample_parser) python_review
       (u ''Python'') \<and>
   (\<exists>d. review_code (mock_env (Inr python_review) sample_parser)
           (ui_state (u ''Python'') bad_block) = Inr d \<and>
         d ''error'' = Some [] \<and>
         (d ''review'' = Some python_review \<or>
          (\<exists>msg. d ''review'' = Some (python_review @ [NL, NL] @ syntax_error_note msg))))"
  using review_code_valid_response
    [of "mock_env (Inr python_review) sample_parser" "ui_state (u ''Python'') bad_block"
      python_review]
    python_review_headers python_review_expected [of "Inr python_review"]
  by (simp add: mock_llm_invoke ui_state_def)

text \<open>
  C2. When one of the four section headers is missing from the model's reply,
  \<open>review_code\<close> returns a result whose error is "Invalid response format from AI model"
  and whose review is empty; the result holds nothing but the error, so the reply is
  discarded.
\<close>

theorem review_code_missing_header:
  assumes "llm_invoke e (prompt_for st) = Inr response" and "\<not> has_all_headers response"
  shows "\<exists>d. review_code e st = Inr d \<and>
           d ''error'' = Some (u ''Invalid response format from AI model'') \<and>
           field_empty d ''review'' \<and> dom d = {''error''}"
  using review_code_on_invalid [OF assms] by (simp add: field_empty_def field_nonempty_def)

theorem review_code_missing_header_witness:
  "\<not> has_all_headers no_explanation \<and>
   (\<exists>d. review_code (mock_env (Inr no_explanation) sample_parser)
           (ui_state (u ''Python'') bad_block) = Inr d \<and>
         d ''error'' = Some (u ''Invalid response format from AI model'') \<and>
         field_empty d ''review'' \<and> dom d = {''error''})"
  using review_code_missing_header
    [of "mock_env (Inr no_explanation) sample_parser" "ui_state (u ''Python'') bad_block"
      no_explanation]
    no_explanation_headers
  by (simp add: mock_env_def)

text \<open>
  C3, as the claim has it: when the model call raises, the review of the result equals
  the empty string. It does not: the dictionary that comes back has no review at all.
\<close>

theorem review_code_api_error_no_review:
  "review_code (mock_env (Inl (u ''Connection error.'')) sample_parser)
     (ui_state (u ''Python'') bad_block) =
     Inr [''error'' \<mapsto> u ''API Error: Connection error.''] \<and>
   [''error'' \<mapsto> u ''API Error: Connection error.''] ''review'' \<noteq> Some []"
  by (simp add: review_code_def mock_env_def Let_def u_def)

text \<open>
  C3, amended. When the model call raises, \<open>review_code\<close> returns a result that holds the
  error only: "API Error: " followed by the message of the exception. The result has no
  review, and neither the validator nor the extractor nor the parser has a part in it.
\<close>

theorem review_code_api_error:
  assumes "llm_invoke e (prompt_for st) = Inl msg"
  shows "\<exists>d. review_code e st = Inr d \<and> d ''error'' = Some (u ''API Error: '' @ msg) \<and>
           prefix (u ''API Error:'') (u ''API Error: '' @ msg) \<and>
           d ''review'' = None \<and> dom d = {''error''}"
  using review_code_on_failure [OF assms] by (simp add: u_def)

theorem review_code_api_error_witness:
  "\<exists>d. review_code (mock_env (Inl (u ''Connection error.'')) sample_parser)
          (ui_state (u ''Python'') bad_block) = Inr d \<and>
        d ''error'' = Some (u ''API Error: '' @ u ''Connection error.'') \<and>
        prefix (u ''API Error:'') (u ''API Error: '' @ u ''Connection error.'') \<and>
        d ''review'' = None \<and> dom d = {''error''}"
  using review_code_api_error
    [of "mock_env (Inl (u ''Connection error.'')) sample_parser"
      "ui_state (u ''Python'') bad_block" "u ''Connection error.''"]
  by (simp add: mock_env_def)

text \<open>
  C4, as the claim has it: for every language, both components are the contents of the
  first fenced block tagged with the language, or both are \<open>None\<close>. For the language
  \<open>.\<close> the pattern matches a block with any one-character tag: the text below has no block
  tagged \<open>.\<close>, and both components are the contents of the block tagged \<open>x\<close>.
\<close>

theorem extract_code_blocks_dot_language:
  "extract_code_blocks (mock_env (Inr untagged_text) sample_parser) untagged_text (u ''.'') =
     Inr (Some (u ''foo''), Some (u ''foo'')) \<and>
   first_tagged_block (u ''.'') untagged_text = None"
  by (simp add: extract_code_blocks_def re_search_def fence_pattern_def re_special_def
      ascii_alnum_def DOTALL_def rx_search_def py_bind_def stripped_group1_def group1_def
      py_strip_def py_isspace_def first_tagged_block_def untagged_text_def u_def NL_def bsl_def)

text \<open>
  C4, amended. Whenever \<open>extract_code_blocks\<close> returns a tuple, its two components are
  equal; and for every language name that holds no special character of the pattern
  syntax it returns a tuple whose components are both the trimmed contents of the first
  fenced block tagged with the language, or both \<open>None\<close> when there is no such block.
\<close>

theorem extract_code_blocks_components:
  "(\<forall>a b. extract_code_blocks e response lang = Inr (a, b) \<longrightarrow> a = b) \<and>
   (plain_name lang \<longrightarrow>
      extract_code_blocks e response lang =
        Inr (map_option py_strip (first_tagged_block lang response),
             map_option py_strip (first_tagged_block lang response)))"
  using extract_equal [of e response lang] extract_plain [of lang e response] by blast

theorem extract_code_blocks_components_witness:
  "plain_name (u ''Python'') \<and>
   extract_code_blocks (mock_env (Inr python_review) sample_parser) python_review (u ''Python'') =
     Inr (Some bad_block, Some bad_block)"
proof -
  have p: "plain_name (u ''Python'')"
    by (simp add: plain_name_def u_def re_special_def bsl_def)
  show ?thesis
    using extract_code_blocks_components
      [of "mock_env (Inr python_review) sample_parser" python_review "u ''Python''"] p
    by (simp add: python_review_block strip_bad_block)
qed

text \<open>
  C5. \<open>validate_response_format\<close> returns true exactly when each of the four headers
  stands at the start of some line of the text; the four conditions are independent, so
  the order of the headers in the text does not matter.
\<close>

theorem validate_response_format_iff:
  "validate_response_format e response =
     Inr (at_line_start (u ''**Issues:**'') response \<and>
          at_line_start (u ''**Corrected Code (Preserve Indentation):**'') response \<and>
          at_line_start (u ''**Optimized Code:**'') response \<and>
          at_line_start (u ''**Explanation:**'') response)"
  by (simp add: validate_has_all_headers has_all_headers_def headers_def)

theorem validate_response_format_iff_witness:
  "validate_response_format (mock_env (Inr reversed_review) sample_parser) reversed_review =
     Inr True"
  using validate_response_format_iff
    [of "mock_env (Inr reversed_review) sample_parser" reversed_review]
  by (simp add: reversed_review_def at_line_start_def u_def NL_def)

text \<open>
  C6. When the language is Python in any case, the reply passes the format check and the
  code extracted from it (which is checked when it is not empty) does not parse,
  \<open>review_code\<close> still returns a result whose error is the empty string, and whose
  review is the reply with the syntax note appended.
\<close>

theorem review_code_syntax_error_advisory:
  assumes "py_lower (language st) = u ''python''"
    and "llm_invoke e (prompt_for st) = Inr response"
    and "has_all_headers response"
    and "extract_code_blocks e response (language st) = Inr (Some corrected_code, optimized)"
    and "corrected_code \<noteq> []"
    and "ast_parse e corrected_code = SyntaxError msg"
  shows "\<exists>d. review_code e st = Inr d \<and> d ''error'' = Some [] \<and>
           d ''review'' = Some (response @ [NL, NL] @ syntax_error_note msg)"
proof -
  have "syntax_note e response (language st) = Inr (syntax_error_note msg)"
    using assms(1,4,5,6)
    by (simp add: syntax_note_def py_bind_def validate_python_syntax_def syntax_error_note_def)
  from review_code_on_valid [OF assms(2,3) this] show ?thesis
    by (simp add: syntax_error_note_nonempty success_result_def)
qed

theorem review_code_syntax_error_advisory_witness:
  "py_lower (u ''Python'') = u ''python'' \<and> has_all_headers python_review \<and>
   extract_code_blocks (mock_env (Inr python_review) sample_parser) python_review (u ''Python'') =
     Inr (Some bad_block, Some bad_block) \<and>
   bad_block \<noteq> [] \<and>
   sample_parser bad_block = SyntaxError (u ''invalid syntax (<unknown>, line 1)'') \<and>
   (\<exists>d. review_code (mock_env (Inr python_review) sample_parser)
           (ui_state (u ''Python'') bad_block) = Inr d \<and>
         d ''error'' = Some [] \<and>
         d ''review'' =
           Some (python_review @ [NL, NL] @
                 syntax_error_note (u ''invalid syntax (<unknown>, line 1)'')))"
proof -
  have x: "extract_code_blocks (mock_env (Inr python_review) sample_parser) python_review
      (u ''Python'') = Inr (Some bad_block, Some bad_block)"
    by (simp add: extract_plain [OF python_plain [OF Python_is_python]] python_review_block
        strip_bad_block)
  have b: "bad_block \<noteq> []" by (simp add: bad_block_def u_def)
  show ?thesis
    using review_code_syntax_error_advisory
      [of "ui_state (u ''Python'') bad_block" "mock_env (Inr python_review) sample_parser"
        python_review bad_block "Some bad_block" "u ''invalid syntax (<unknown>, line 1)''"]
      Python_is_python python_review_headers x b parse_bad_block
    by (simp add: mock_llm_invoke mock_ast_parse ui_state_def)
qed

text \<open>
  C7. For a language that is not Python in any case, the syntax check does nothing: on
  a reply that passes the format check, the review of the result is the reply itself.
\<close>

theorem review_code_other_language:
  assumes "py_lower (language st) \<noteq> u ''python''"
    and "llm_invoke e (prompt_for st) = Inr response"
    and "has_all_headers response"
  shows "review_code e st = Inr (success_result st response)"
  using review_code_on_valid [OF assms(2,3) syntax_note_other [OF assms(1)]] by simp

theorem review_code_other_language_witness:
  "py_lower (u ''JavaScript'') \<noteq> u ''python'' \<and> has_all_headers python_review \<and>
   review_code (mock_env (Inr python_review) sample_parser)
     (ui_state (u ''JavaScript'') bad_block) =
     Inr (success_result (ui_state (u ''JavaScript'') bad_block) python_review)"
  using review_code_other_language
    [of "ui_state (u ''JavaScript'') bad_block" "mock_env (Inr python_review) sample_parser"
      python_review]
    JavaScript_is_not_python python_review_headers
  by (simp add: mock_env_def ui_state_def)

text \<open>
  C8, as the claim has it: for every input state \<open>review_code\<close> returns a result, in which
  exactly one of the review and the error is non-empty. On the state and the reply below
  (the language in lower case, a lone surrogate in the Python block) the exception of the
  parser leaves \<open>review_code\<close>, and there is no result.
\<close>

theorem review_code_no_result:
  "review_code (mock_env (Inr lowercase_review) sample_parser)
     (ui_state (u ''python'') surrogate_block) =
     Inl (ParserException (u ''surrogates not allowed''))"
proof -
  have "syntax_note (mock_env (Inr lowercase_review) sample_parser) lowercase_review
      (language (ui_state (u ''python'') surrogate_block)) =
      Inl (ParserException (u ''surrogates not allowed''))"
    by (simp add: ui_state_def syntax_note_python [OF python_is_python] lowercase_review_block
        strip_surrogate_block validate_python_syntax_def mock_ast_parse parse_surrogate_block
        surrogate_block_nonempty)
  then show ?thesis
    using lowercase_review_headers
    by (simp add: review_code_on_exception mock_llm_invoke)
qed

text \<open>
  C8, amended. In every result that \<open>review_code\<close> returns, exactly one of the review and
  the error is non-empty; and \<open>review_code\<close> returns a result on every input state and
  behaviour of the model for which the parser raises no exception other than
  \<open>SyntaxError\<close> on the code extracted from a reply in the right format.
\<close>

theorem review_code_exactly_one_field:
  "(\<forall>d. review_code e st = Inr d \<longrightarrow>
        (field_nonempty d ''review'' \<longleftrightarrow> \<not> field_nonempty d ''error'')) \<and>
   ((\<forall>r. llm_invoke e (prompt_for st) = Inr r \<longrightarrow> has_all_headers r \<longrightarrow>
         \<not> unexpected_parser_exception e r (language st)) \<longrightarrow>
    (\<exists>d. review_code e st = Inr d))"
proof (cases "llm_invoke e (prompt_for st)")
  case (Inl msg)
  then show ?thesis
    by (auto simp: review_code_on_failure field_nonempty_def u_def)
next
  case (Inr r)
  show ?thesis
  proof (cases "has_all_headers r")
    case False
    with Inr show ?thesis
      by (auto simp: review_code_on_invalid field_nonempty_def u_def)
  next
    case True
    then have r: "r \<noteq> []" by (rule has_all_headers_nonempty)
    show ?thesis
    proof (cases "unexpected_parser_exception e r (language st)")
      case True
      then show ?thesis
        using review_code_raises [OF Inr \<open>has_all_headers r\<close>] Inr \<open>has_all_headers r\<close>
        by auto
    next
      case False
      then show ?thesis
        using review_code_valid_cases [OF Inr True False] r
        by (auto simp: field_nonempty_def success_result_def)
    qed
  qed
qed

theorem review_code_exactly_one_field_witness:
  "\<exists>d. review_code (mock_env (Inr python_review) sample_parser)
          (ui_state (u ''Python'') bad_block) = Inr d \<and>
        (field_nonempty d ''review'' \<longleftrightarrow> \<not> field_nonempty d ''error'')"
proof -
  have "\<forall>r. llm_invoke (mock_env (Inr python_review) sample_parser)
          (prompt_for (ui_state (u ''Python'') bad_block)) = Inr r \<longrightarrow>
        has_all_headers r \<longrightarrow>
        \<not> unexpected_parser_exception (mock_env (Inr python_review) sample_parser) r
            (language (ui_state (u ''Python'') bad_block))"
    using python_review_expected [of "Inr python_review"]
    by (simp add: mock_llm_invoke ui_state_def)
  then show ?thesis
    using review_code_exactly_one_field
      [of "mock_env (Inr python_review) sample_parser" "ui_state (u ''Python'') bad_block"]
    by blast
qed

text \<open>
  C9. Two invocations of \<open>review_code\<close> on the same state, in which the model call
  returns the same reply (and the parser is the same), return the same result, whatever
  else differs between the two environments.
\<close>

theorem review_code_deterministic:
  assumes "llm_invoke e1 (prompt_for st) = Inr response"
    and "llm_invoke e2 (prompt_for st) = Inr response"
    and "ast_parse e1 = ast_parse e2"
  shows "review_code e1 st = review_code e2 st"
  using assms by (intro review_code_same) simp_all

theorem review_code_deterministic_witness:
  "review_code (mock_env (Inr python_review) sample_parser) (ui_state (u ''Python'') bad_block) =
   review_code
     ((mock_env (Inr python_review) sample_parser)\<lparr>re_library := \<lambda>f pattern text. Inr None\<rparr>)
     (ui_state (u ''Python'') bad_block)"
  using review_code_deterministic
    [of "mock_env (Inr python_review) sample_parser" "ui_state (u ''Python'') bad_block"
      python_review
      "(mock_env (Inr python_review) sample_parser)\<lparr>re_library := \<lambda>f pattern text. Inr None\<rparr>"]
  by (simp add: mock_env_def)

end
